theory Spec2Isabelle
  imports Main "HOL-Library.AList"
begin

section \<open>Strings and bytes\<close>

text \<open>
  A Python \<open>str\<close> is a sequence of Unicode code points, a Python \<open>bytes\<close> a sequence of
  bytes. The button labels of the bot are Cyrillic, so text is kept as code points; an
  Isabelle \<open>char\<close> is exactly one byte.
\<close>

type_synonym str = "nat list"
type_synonym bytes = "char list"

definition ascii :: "string \<Rightarrow> str" where
  "ascii s = map of_char s"

definition continuation :: "char \<Rightarrow> bool" where
  "continuation b \<longleftrightarrow> (128::nat) \<le> of_char b \<and> (of_char b :: nat) < 192"

definition payload :: "char \<Rightarrow> nat" where
  "payload b = of_char b - 128"

text \<open>
  \<open>utf8_first b bs\<close> reads the code point that starts with the lead byte \<open>b\<close> and returns it
  with the number of continuation bytes it took from \<open>bs\<close>; \<open>None\<close> is Python's
  \<open>UnicodeDecodeError\<close> (bad lead byte, truncated or overlong sequence, surrogate,
  code point beyond U+10FFFF), as \<open>bytes.decode()\<close> with its default \<open>utf-8\<close>, \<open>strict\<close>.
\<close>

definition utf8_first :: "char \<Rightarrow> bytes \<Rightarrow> (nat \<times> nat) option" where
  "utf8_first b bs =
     (let n = (of_char b :: nat) in
      if n < 128 then Some (n, 0)
      else if 194 \<le> n \<and> n < 224 then
        (case bs of
           b1 # _ \<Rightarrow>
             if continuation b1 then Some ((n - 192) * 64 + payload b1, 1) else None
         | _ \<Rightarrow> None)
      else if 224 \<le> n \<and> n < 240 then
        (case bs of
           b1 # b2 # _ \<Rightarrow>
             (let c = (n - 224) * 4096 + payload b1 * 64 + payload b2 in
              if continuation b1 \<and> continuation b2 \<and> 2048 \<le> c
                 \<and> \<not> (55296 \<le> c \<and> c < 57344)
              then Some (c, 2) else None)
         | _ \<Rightarrow> None)
      else if 240 \<le> n \<and> n < 245 then
        (case bs of
           b1 # b2 # b3 # _ \<Rightarrow>
             (let c = (n - 240) * 262144 + payload b1 * 4096 + payload b2 * 64 + payload b3 in
              if continuation b1 \<and> continuation b2 \<and> continuation b3
                 \<and> 65536 \<le> c \<and> c < 1114112
              then Some (c, 3) else None)
         | _ \<Rightarrow> None)
      else None)"

function utf8_decode :: "bytes \<Rightarrow> str option" where
  "utf8_decode [] = Some []"
| "utf8_decode (b # bs) =
     (case utf8_first b bs of
        None \<Rightarrow> None
      | Some (c, k) \<Rightarrow> map_option ((#) c) (utf8_decode (drop k bs)))"
  by pat_completeness auto
termination
  by (relation "measure length") auto

text \<open>
  \<open>str.encode()\<close>, as the Redis library applies it to the fields and values of a hash.
  Lone surrogates, which Python refuses to encode, do not occur: the service only writes
  the ASCII constants of \<open>to_dict\<close> below.
\<close>

definition utf8_encode_cp :: "nat \<Rightarrow> bytes" where
  "utf8_encode_cp c =
     (if c < 128 then [char_of c]
      else if c < 2048 then [char_of (192 + c div 64), char_of (128 + c mod 64)]
      else if c < 65536 then
        [char_of (224 + c div 4096), char_of (128 + c div 64 mod 64), char_of (128 + c mod 64)]
      else
        [char_of (240 + c div 262144), char_of (128 + c div 4096 mod 64),
         char_of (128 + c div 64 mod 64), char_of (128 + c mod 64)])"

definition utf8_encode :: "str \<Rightarrow> bytes" where
  "utf8_encode s = concat (map utf8_encode_cp s)"

section \<open>Data model\<close>

text \<open>\<open>States\<close> and \<open>UpdateTypes\<close> of \<open>app.pkg.models.app.fsm\<close>, with their values.\<close>

datatype states = MAIN_MENU | QUESTIONS | RECOMMENDATION

datatype update_types = TEXT

fun states_value :: "states \<Rightarrow> str" where
  "states_value MAIN_MENU = ascii ''main_menu''"
| "states_value QUESTIONS = ascii ''questions''"
| "states_value RECOMMENDATION = ascii ''recommendation''"

text \<open>The enumeration looked up by value, as pydantic validates a field of type \<open>States\<close>.\<close>

definition states_of_value :: "str \<Rightarrow> states option" where
  "states_of_value v =
     (if v = states_value MAIN_MENU then Some MAIN_MENU
      else if v = states_value QUESTIONS then Some QUESTIONS
      else if v = states_value RECOMMENDATION then Some RECOMMENDATION
      else None)"

record state_information =
  state :: "states option"

text \<open>
  The inbound update, with the fields the service reads: \<open>update.message\<close>,
  \<open>message.from_.id\<close> (\<open>from_id\<close>, absent when \<open>from_\<close> is), \<open>message.chat.id\<close> and
  \<open>message.text\<close> (\<open>message_text\<close>).
\<close>

record message =
  from_id :: "int option"
  chat_id :: int
  message_text :: "str option"

record update =
  update_id :: int
  message :: "message option"

record program =
  name :: str
  website_url :: str

text \<open>
  The keyboards passed as \<open>reply_markup\<close>: an inline keyboard is rows of (text, url)
  buttons, a reply keyboard rows of button texts with \<open>resize_keyboard\<close> and
  \<open>is_persistent\<close>.
\<close>

datatype reply_markup =
    InlineKeyboardMarkup "(str \<times> str) list list"
  | ReplyKeyboardMarkup "str list list" bool bool

text \<open>The arguments of one \<open>send_message\<close> call.\<close>

record send_message_args =
  to_chat :: int
  body :: str
  markup :: "reply_markup option"
  parse_mode :: "str option"

text \<open>\<open>TelegramAPISendMessageResponse\<close>: the \<open>ok\<close> flag and the sent message, if any.\<close>

record send_message_response =
  ok :: bool
  result :: "message option"

section \<open>Exceptions, collaborators and the world\<close>

text \<open>
  The exceptions that occur, all of them subclasses of \<open>Exception\<close>: those the service
  raises itself and \<open>Other n\<close> for whatever a collaborator raises.
\<close>

datatype error =
    ValueError
  | AttributeError
  | TypeError
  | UnicodeDecodeError
  | ValidationError
  | EmptyResult
  | Other nat

text \<open>One entry per call that leaves the service, in the order the calls are made.\<close>

datatype call =
    Redis_hgetall int
  | Redis_hset int "(bytes \<times> bytes) list"
  | Redis_hdel int "str list"
  | Redis_delete int
  | Programs_read_all
  | Specifics_create int str
  | Specifics_read_listed int
  | Openai_answer_question "str list" "str option"
  | Openai_provide_recommendation "str list" "str list" "str list"
  | Telegram_send_message send_message_args

datatype log_record = Log_info string | Log_error string error

text \<open>
  The world the service runs in. \<open>redis\<close> holds one hash per key, as an association list
  of field and value with distinct fields (a missing key is the empty hash, as in Redis); \<open>user_specifics\<close> and
  \<open>supported_programms\<close> are the rows of the two tables, the latter in the order of the
  repository's query. \<open>calls\<close> and \<open>log\<close> record what has happened. The remaining fields
  are what the service cannot decide: \<open>raises n\<close> says whether the call number \<open>n\<close> (counted
  from 0 over \<open>calls\<close>) raises, and with what; \<open>answers\<close>, \<open>recommends\<close> and \<open>telegram\<close> are
  the replies of the completion API and of Telegram to that call; \<open>listing_order\<close> is the
  order the database gives the \<open>order by specific\<close> query; \<open>extra_forbidden\<close> is whether
  the base model, which is not among the sources, rejects unknown fields.
\<close>

record world =
  redis :: "int \<Rightarrow> (bytes \<times> bytes) list"
  user_specifics :: "(int \<times> str) list"
  supported_programms :: "program list"
  calls :: "call list"
  log :: "log_record list"
  raises :: "nat \<Rightarrow> error option"
  answers :: "nat \<Rightarrow> str list \<Rightarrow> str option \<Rightarrow> str"
  recommends :: "nat \<Rightarrow> str list \<Rightarrow> str list \<Rightarrow> str list \<Rightarrow> str \<times> str"
  telegram :: "nat \<Rightarrow> send_message_args \<Rightarrow> send_message_response"
  listing_order :: "str list \<Rightarrow> str list"
  extra_forbidden :: bool

text \<open>
  A coroutine of the service is a function of the world that returns its value, or the
  exception it raised, together with the world it leaves behind: what was written before
  a raise stays written.
\<close>

type_synonym 'a io = "world \<Rightarrow> (error + 'a) \<times> world"

definition return_io :: "'a \<Rightarrow> 'a io" where
  "return_io x = (\<lambda>w. (Inr x, w))"

definition raise_io :: "error \<Rightarrow> 'a io" where
  "raise_io e = (\<lambda>w. (Inl e, w))"

definition bind_io :: "'a io \<Rightarrow> ('a \<Rightarrow> 'b io) \<Rightarrow> 'b io" where
  "bind_io m f = (\<lambda>w. case m w of (Inl e, w') \<Rightarrow> (Inl e, w') | (Inr x, w') \<Rightarrow> f x w')"

text \<open>\<open>try: m except E as ex: h ex\<close>, where \<open>catches\<close> says which exceptions \<open>E\<close> covers.\<close>

definition try_except :: "'a io \<Rightarrow> (error \<Rightarrow> bool) \<Rightarrow> (error \<Rightarrow> 'a io) \<Rightarrow> 'a io" where
  "try_except m catches h =
     (\<lambda>w. case m w of
             (Inl e, w') \<Rightarrow> if catches e then h e w' else (Inl e, w')
           | (Inr x, w') \<Rightarrow> (Inr x, w'))"

definition of_result :: "error + 'a \<Rightarrow> 'a io" where
  "of_result r = (\<lambda>w. (r, w))"

definition logged :: "log_record \<Rightarrow> world \<Rightarrow> world" where
  "logged r w = w\<lparr>log := log w @ [r]\<rparr>"

definition logger :: "log_record \<Rightarrow> unit io" where
  "logger r = (\<lambda>w. (Inr (), logged r w))"

text \<open>
  A call to a collaborator: it is recorded, then it either raises what \<open>raises\<close> says, with
  no effect, or runs.
\<close>

definition call_io :: "call \<Rightarrow> (nat \<Rightarrow> 'a io) \<Rightarrow> 'a io" where
  "call_io c run =
     (\<lambda>w. let n = length (calls w); w' = w\<lparr>calls := calls w @ [c]\<rparr>
          in case raises w n of Some e \<Rightarrow> (Inl e, w') | None \<Rightarrow> run n w')"

definition then_io :: "unit io \<Rightarrow> 'a io \<Rightarrow> 'a io" where
  "then_io m k = bind_io m (\<lambda>_. k)"

section \<open>Clients and services\<close>

subsection \<open>\<open>RedisClient\<close>\<close>

text \<open>
  \<open>HSET key field value ...\<close> sets the given fields of the hash and leaves its other
  fields as they are; \<open>HGETALL\<close> reads the hash, \<open>DEL\<close> removes the key, \<open>HDEL\<close> removes
  fields. The library encodes the fields and values it is given.
\<close>

definition hset_fields :: "(bytes \<times> bytes) list \<Rightarrow> (bytes \<times> bytes) list \<Rightarrow> (bytes \<times> bytes) list" where
  "hset_fields mapping h = fold (\<lambda>(f, v). AList.update f v) mapping h"

definition hmset :: "int \<Rightarrow> (str \<times> str) list \<Rightarrow> unit io" where
  "hmset key value =
     (let mapping = map (\<lambda>(f, v). (utf8_encode f, utf8_encode v)) value in
      call_io (Redis_hset key mapping)
        (\<lambda>n w. (Inr (), w\<lparr>redis := (redis w)(key := hset_fields mapping (redis w key))\<rparr>)))"

definition hgetall :: "int \<Rightarrow> (bytes \<times> bytes) list io" where
  "hgetall key = call_io (Redis_hgetall key) (\<lambda>n w. (Inr (redis w key), w))"

definition hdel :: "int \<Rightarrow> str list \<Rightarrow> unit io" where
  "hdel key field_names =
     call_io (Redis_hdel key field_names)
       (\<lambda>n w. (Inr (),
          w\<lparr>redis := (redis w)(key := fold (\<lambda>f. AList.delete (utf8_encode f)) field_names (redis w key))\<rparr>))"

definition delete :: "int \<Rightarrow> unit io" where
  "delete key = call_io (Redis_delete key) (\<lambda>n w. (Inr (), w\<lparr>redis := (redis w)(key := [])\<rparr>))"

subsection \<open>\<open>TelegramClient\<close>\<close>

definition send_message :: "send_message_args \<Rightarrow> send_message_response io" where
  "send_message args = call_io (Telegram_send_message args) (\<lambda>n w. (Inr (telegram w n args), w))"

subsection \<open>\<open>SupportedProgrammsService\<close> and \<open>UserSpecificsService\<close>\<close>

text \<open>
  Both services turn the repository's \<open>EmptyResult\<close> into the empty list. The repositories'
  \<open>collect_response\<close> is not among the sources: a repository call here returns the rows or
  raises what \<open>raises\<close> says, \<open>EmptyResult\<close> included.
\<close>

definition get_programs :: "program list io" where
  "get_programs =
     then_io (logger (Log_info ''Fetching all supported programs.''))
       (try_except
          (call_io Programs_read_all (\<lambda>n w. (Inr (supported_programms w), w)))
          (\<lambda>e. e = EmptyResult)
          (\<lambda>_. return_io []))"

text \<open>
  The commands \<open>CreateUserSpecificCommand\<close> and \<open>ReadUserSpecificCommand\<close> are pydantic
  models with \<open>user_id: PositiveInt\<close> and \<open>specific: str\<close>: building one from an
  identifier that is not positive, or from a text of \<open>None\<close>, raises \<open>ValidationError\<close>
  before the repository is called.
\<close>

definition create_user_specific :: "int \<Rightarrow> str option \<Rightarrow> (int \<times> str) io" where
  "create_user_specific user_id specific =
     (case specific of
        None \<Rightarrow> raise_io ValidationError
      | Some s \<Rightarrow>
          if user_id \<le> 0 then raise_io ValidationError
          else
            call_io (Specifics_create user_id s)
              (\<lambda>n w. (Inr (user_id, s),
                 w\<lparr>user_specifics := user_specifics w @ [(user_id, s)]\<rparr>)))"

definition get_user_specifics :: "int \<Rightarrow> (int \<times> str) list io" where
  "get_user_specifics user_id =
     then_io (logger (Log_info ''Fetching user specifics for user ID: %s''))
       (try_except
          (if user_id \<le> 0 then raise_io ValidationError
           else
             call_io (Specifics_read_listed user_id)
               (\<lambda>n w. (Inr (map (Pair user_id)
                          (listing_order w
                             (map snd (filter (\<lambda>r. fst r = user_id) (user_specifics w))))), w)))
          (\<lambda>e. e = EmptyResult)
          (\<lambda>_. return_io []))"

subsection \<open>\<open>OpenAIService\<close>\<close>

text \<open>
  The two methods log, ask the completion API and hand back the parsed answer; an
  exception is logged and raised again. The request to the API, built from the arguments,
  is one call to a collaborator.
\<close>

definition answer_question :: "str list \<Rightarrow> str option \<Rightarrow> str io" where
  "answer_question websites question =
     then_io (logger (Log_info ''Answering question based on websites.''))
       (try_except
          (call_io (Openai_answer_question websites question)
             (\<lambda>n w. (Inr (answers w n websites question), w)))
          (\<lambda>_. True)
          (\<lambda>e. then_io (logger (Log_error ''Error answering question: %s'' e)) (raise_io e)))"

definition provide_recommendation :: "str list \<Rightarrow> str list \<Rightarrow> str list \<Rightarrow> (str \<times> str) io" where
  "provide_recommendation websites specifics programs =
     then_io (logger (Log_info ''Providing recommendation based on websites and specifics.''))
       (try_except
          (call_io (Openai_provide_recommendation websites specifics programs)
             (\<lambda>n w. (Inr (recommends w n websites specifics programs), w)))
          (\<lambda>_. True)
          (\<lambda>e. then_io (logger (Log_error ''Error providing recommendation: %s'' e)) (raise_io e)))"

section \<open>\<open>FSMService\<close>\<close>

subsection \<open>The state resolver\<close>

text \<open>\<open>{k.decode(): v.decode() for k, v in response.items()}\<close>\<close>

fun decode_items :: "(bytes \<times> bytes) list \<Rightarrow> error + (str \<times> str) list" where
  "decode_items [] = Inr []"
| "decode_items ((k, v) # items) =
     (case utf8_decode k of
        None \<Rightarrow> Inl UnicodeDecodeError
      | Some k' \<Rightarrow>
          (case utf8_decode v of
             None \<Rightarrow> Inl UnicodeDecodeError
           | Some v' \<Rightarrow>
               (case decode_items items of
                  Inl e \<Rightarrow> Inl e
                | Inr d \<Rightarrow> Inr ((k', v') # d))))"

text \<open>
  \<open>StateInformation(**kwargs)\<close>. The constructor of a pydantic model is
  \<open>__init__(__pydantic_self__, **data)\<close>: a keyword named \<open>__pydantic_self__\<close> collides
  with its first parameter and the call raises \<open>TypeError\<close> before anything is validated.
  Otherwise the optional field \<open>state\<close> is validated against \<open>States\<close>; a keyword that is
  no field is an error only where the base model forbids it.
\<close>

definition StateInformation :: "bool \<Rightarrow> (str \<times> str) list \<Rightarrow> error + state_information" where
  "StateInformation forbid kwargs =
     (if list_ex (\<lambda>k. k = ascii ''__pydantic_self__'') (map fst kwargs) then Inl TypeError
      else if forbid \<and> list_ex (\<lambda>k. k \<noteq> ascii ''state'') (map fst kwargs)
      then Inl ValidationError
      else
        (case map_of kwargs (ascii ''state'') of
           None \<Rightarrow> Inr \<lparr>state = None\<rparr>
         | Some v \<Rightarrow>
             (case states_of_value v of
                None \<Rightarrow> Inl ValidationError
              | Some s \<Rightarrow> Inr \<lparr>state = Some s\<rparr>)))"

text \<open>
  Modelled from the spec: \<open>to_dict\<close> of the base model in \<open>app.pkg.models.base\<close> is not
  among the sources. With \<open>exclude_none=True\<close> it gives the state record that is written
  to the store: the field \<open>state\<close> with the value of the enumeration, which is what the
  resolver parses back.
\<close>

definition to_dict :: "state_information \<Rightarrow> (str \<times> str) list" where
  "to_dict si = (case state si of None \<Rightarrow> [] | Some s \<Rightarrow> [(ascii ''state'', states_value s)])"

definition get_client_state_information :: "int \<Rightarrow> state_information option io" where
  "get_client_state_information client_id =
     bind_io (hgetall client_id) (\<lambda>response.
       if response = [] then return_io None
       else
         try_except
           (bind_io (of_result (decode_items response)) (\<lambda>decoded_response.
            bind_io (\<lambda>w. (StateInformation (extra_forbidden w) decoded_response, w))
              (\<lambda>state_information.
            let keys_to_delete = [] in
            then_io (if keys_to_delete \<noteq> [] then hdel client_id keys_to_delete else return_io ())
              (return_io (Some state_information)))))
           (\<lambda>e. e = ValidationError)
           (\<lambda>ex. then_io
                   (logger (Log_error ''Unexpected error when parsing redis hashmap: %s'' ex))
                   (return_io None)))"

subsection \<open>The texts of the bot\<close>

text \<open>
  The literals of the source, as code points: the command \<open>/start\<close>, the three button
  labels, the texts of the replies, and the prefix of the message that names the
  recommended program.
\<close>

definition start_command :: str where
  "start_command = ascii ''/start''"

definition question_about_program_button :: str where
  "question_about_program_button =
    [10067, 32, 1047, 1072, 1076, 1072, 1090, 1100, 32, 1074, 1086, 1087, 1088, 1086, 1089,
     32, 1086, 32, 1087, 1088, 1086, 1075, 1088, 1072, 1084, 1084, 1077]"

definition get_recommendation_button :: str where
  "get_recommendation_button =
    [10071, 65039, 32, 1055, 1086, 1083, 1091, 1095, 1080, 1090, 1100, 32, 1088, 1077,
     1082, 1086, 1084, 1084, 1077, 1085, 1076, 1072, 1094, 1080, 1102]"

definition return_to_main_menu_button :: str where
  "return_to_main_menu_button =
    [1042, 1077, 1088, 1085, 1091, 1090, 1100, 1089, 1103, 32, 1074, 32, 1075, 1083, 1072,
     1074, 1085, 1086, 1077, 32, 1084, 1077, 1085, 1102]"

definition greeting_text :: str where
  "greeting_text =
    [1055, 1088, 1080, 1074, 1077, 1090, 33, 10, 1071, 32, 1087, 1086, 1084, 1086, 1075,
     1091, 32, 1090, 1077, 1073, 1077, 32, 1089, 32, 1074, 1099, 1073, 1086, 1088, 1086,
     1084, 32, 1087, 1088, 1086, 1075, 1088, 1072, 1084, 1084, 1099, 32, 1076, 1083, 1103,
     32, 1087, 1086, 1089, 1090, 1091, 1087, 1083, 1077, 1085, 1080, 1103, 32, 1074, 32,
     1084, 1072, 1075, 1080, 1089, 1090, 1088, 1072, 1090, 1091, 1088, 1091, 32, 1048,
     1058, 1052, 1054]"

definition main_menu_text :: str where
  "main_menu_text =
    [1057, 32, 1095, 1077, 1084, 32, 1103, 32, 1084, 1086, 1075, 1091, 32, 1087, 1086,
     1084, 1086, 1095, 1100, 63]"

definition ask_question_text :: str where
  "ask_question_text =
    [1047, 1072, 1076, 1072, 1081, 32, 1089, 1074, 1086, 1081, 32, 1074, 1086, 1087, 1088,
     1086, 1089, 32, 1086, 32, 1087, 1088, 1086, 1075, 1088, 1072, 1084, 1084, 1077, 44,
     32, 1080, 32, 1103, 32, 1087, 1086, 1089, 1090, 1072, 1088, 1072, 1102, 1089, 1100,
     32, 1085, 1072, 32, 1085, 1077, 1075, 1086, 32, 1086, 1090, 1074, 1077, 1090, 1080,
     1090, 1100, 33]"

definition wait_answer_text :: str where
  "wait_answer_text =
    [1055, 1086, 1078, 1072, 1083, 1091, 1081, 1089, 1090, 1072, 44, 32, 1087, 1086, 1076,
     1086, 1078, 1076, 1080, 44, 32, 1103, 32, 1080, 1097, 1091, 32, 1086, 1090, 1074,
     1077, 1090, 32, 1085, 1072, 32, 1090, 1074, 1086, 1081, 32, 1074, 1086, 1087, 1088,
     1086, 1089, 46, 46, 46]"

definition describe_yourself_text :: str where
  "describe_yourself_text =
    [1056, 1072, 1089, 1089, 1082, 1072, 1078, 1080, 32, 1084, 1085, 1077, 32, 1087, 1088,
     1086, 32, 1089, 1077, 1073, 1103, 32, 1080, 32, 1103, 32, 1087, 1086, 1089, 1090,
     1072, 1088, 1072, 1102, 1089, 1100, 32, 1087, 1086, 1076, 1086, 1073, 1088, 1072,
     1090, 1100, 32, 1090, 1077, 1073, 1077, 32, 1087, 1088, 1086, 1075, 1088, 1072, 1084,
     1084, 1091, 44, 32, 1082, 1086, 1090, 1086, 1088, 1072, 1103, 32, 1090, 1077, 1073,
     1077, 32, 1087, 1086, 1076, 1086, 1081, 1076, 1077, 1090, 33]"

definition wait_recommendation_text :: str where
  "wait_recommendation_text =
    [1055, 1086, 1078, 1072, 1083, 1091, 1081, 1089, 1090, 1072, 44, 32, 1087, 1086, 1076,
     1086, 1078, 1076, 1080, 44, 32, 1103, 32, 1080, 1097, 1091, 32, 1087, 1086, 1076,
     1093, 1086, 1076, 1103, 1097, 1091, 1102, 32, 1076, 1083, 1103, 32, 1090, 1077, 1073,
     1103, 32, 1087, 1088, 1086, 1075, 1088, 1072, 1084, 1084, 1091, 46, 46, 46]"

definition recommended_program_prefix :: str where
  "recommended_program_prefix =
    [1056, 1077, 1082, 1086, 1084, 1077, 1085, 1076, 1086, 1074, 1072, 1085, 1085, 1072,
     1103, 32, 1087, 1088, 1086, 1075, 1088, 1072, 1084, 1084, 1072, 58, 32]"

definition markdown :: str where
  "markdown = ascii ''Markdown''"

subsection \<open>The handlers\<close>

type_synonym update_handler = "update \<Rightarrow> send_message_response list io"

text \<open>
  \<open>update.message.from_.id if update.message.from_ else update.message.chat.id\<close>; an
  update without a message has no attribute to read.
\<close>

definition sender :: "message \<Rightarrow> int" where
  "sender m = (case from_id m of Some i \<Rightarrow> i | None \<Rightarrow> chat_id m)"

definition client_id_of :: "update \<Rightarrow> int io" where
  "client_id_of u =
     (case message u of
        None \<Rightarrow> raise_io AttributeError
      | Some m \<Rightarrow> return_io (sender m))"

definition text_of :: "update \<Rightarrow> str option io" where
  "text_of u =
     (case message u of
        None \<Rightarrow> raise_io AttributeError
      | Some m \<Rightarrow> return_io (message_text m))"

definition return_keyboard :: reply_markup where
  "return_keyboard = ReplyKeyboardMarkup [[return_to_main_menu_button]] True True"

text \<open>The messages the handlers send, as the arguments of their \<open>send_message\<close> calls.\<close>

definition main_menu_message :: "int \<Rightarrow> send_message_args" where
  "main_menu_message client_id =
     \<lparr>to_chat = client_id, body = main_menu_text,
      markup = Some (ReplyKeyboardMarkup
                       [[question_about_program_button], [get_recommendation_button]]
                       True True),
      parse_mode = None\<rparr>"

definition greeting_message :: "int \<Rightarrow> program list \<Rightarrow> send_message_args" where
  "greeting_message client_id supported_programs =
     \<lparr>to_chat = client_id, body = greeting_text,
      markup = Some (InlineKeyboardMarkup
                       (map (\<lambda>p. [(name p, website_url p)]) supported_programs)),
      parse_mode = None\<rparr>"

definition ask_question_message :: "int \<Rightarrow> send_message_args" where
  "ask_question_message client_id =
     \<lparr>to_chat = client_id, body = ask_question_text,
      markup = Some return_keyboard, parse_mode = None\<rparr>"

definition wait_answer_message :: "int \<Rightarrow> send_message_args" where
  "wait_answer_message client_id =
     \<lparr>to_chat = client_id, body = wait_answer_text,
      markup = Some return_keyboard, parse_mode = None\<rparr>"

definition markdown_message :: "int \<Rightarrow> str \<Rightarrow> send_message_args" where
  "markdown_message client_id t =
     \<lparr>to_chat = client_id, body = t, markup = None, parse_mode = Some markdown\<rparr>"

definition describe_yourself_message :: "int \<Rightarrow> send_message_args" where
  "describe_yourself_message client_id =
     \<lparr>to_chat = client_id, body = describe_yourself_text,
      markup = Some return_keyboard, parse_mode = None\<rparr>"

definition wait_recommendation_message :: "int \<Rightarrow> send_message_args" where
  "wait_recommendation_message client_id =
     \<lparr>to_chat = client_id, body = wait_recommendation_text,
      markup = Some return_keyboard, parse_mode = None\<rparr>"

definition process_return_to_main_menu :: update_handler where
  "process_return_to_main_menu u =
     bind_io (client_id_of u) (\<lambda>client_id.
     then_io (hmset client_id (to_dict \<lparr>state = Some MAIN_MENU\<rparr>))
    (bind_io (send_message (main_menu_message client_id)) (\<lambda>sent.
     return_io [sent])))"

definition process_start_command :: update_handler where
  "process_start_command u =
     bind_io (client_id_of u) (\<lambda>client_id.
     then_io (delete client_id)
    (then_io (hmset client_id (to_dict \<lparr>state = Some MAIN_MENU\<rparr>))
    (bind_io get_programs (\<lambda>supported_programs.
     bind_io (send_message (greeting_message client_id supported_programs)) (\<lambda>sent.
     bind_io (process_return_to_main_menu u) (\<lambda>menu.
     return_io ([sent] @ menu)))))))"

definition process_question_about_program :: update_handler where
  "process_question_about_program u =
     bind_io (client_id_of u) (\<lambda>client_id.
     then_io (hmset client_id (to_dict \<lparr>state = Some QUESTIONS\<rparr>))
    (bind_io (send_message (ask_question_message client_id)) (\<lambda>sent.
     return_io [sent])))"

text \<open>
  The question is \<open>update.message.text\<close> as it is. A text of \<open>None\<close>, which no route of
  \<open>process_update\<close> brings here, would be formatted into the prompt as any other value;
  the completion API is asked all the same.
\<close>

definition process_question :: update_handler where
  "process_question u =
     bind_io (client_id_of u) (\<lambda>client_id.
     bind_io (text_of u) (\<lambda>question.
     then_io (logger (Log_info ''Received question: %s''))
    (bind_io (send_message (wait_answer_message client_id)) (\<lambda>_.
     bind_io get_programs (\<lambda>programs.
     bind_io (answer_question (map website_url programs) question) (\<lambda>response.
     bind_io (send_message (markdown_message client_id response)) (\<lambda>sent.
     return_io [sent])))))))"

definition process_get_recommendation :: update_handler where
  "process_get_recommendation u =
     bind_io (client_id_of u) (\<lambda>client_id.
     then_io (hmset client_id (to_dict \<lparr>state = Some RECOMMENDATION\<rparr>))
    (bind_io (send_message (describe_yourself_message client_id)) (\<lambda>sent.
     return_io [sent])))"

definition process_recommendation :: update_handler where
  "process_recommendation u =
     bind_io (client_id_of u) (\<lambda>client_id.
     bind_io (text_of u) (\<lambda>specific.
     bind_io (create_user_specific client_id specific) (\<lambda>_.
     bind_io (get_user_specifics client_id) (\<lambda>user_specifics.
     bind_io get_programs (\<lambda>programs.
     bind_io (provide_recommendation
                (map website_url programs) (map snd user_specifics) (map name programs))
       (\<lambda>response.
     bind_io (send_message (wait_recommendation_message client_id)) (\<lambda>_.
     bind_io (send_message (markdown_message client_id (fst response))) (\<lambda>first.
     bind_io (send_message
                (markdown_message client_id (recommended_program_prefix @ snd response)))
       (\<lambda>second.
     return_io [first, second])))))))))"

subsection \<open>Routing\<close>

record fsm_router =
  handler :: update_handler
  validator :: "state_information option \<Rightarrow> bool"

text \<open>The two tables of the service object, \<open>self\<close> in the source.\<close>

record fsm_service =
  text_routing :: "(str \<times> fsm_router) list"
  state_routing :: "(str \<times> fsm_router) list"

text \<open>\<open>FSMService.__init__\<close>: every registered validator is \<open>lambda _: True\<close>.\<close>

definition init :: fsm_service where
  "init =
     \<lparr>text_routing =
        [(start_command,
          \<lparr>handler = process_start_command, validator = (\<lambda>_. True)\<rparr>),
         (question_about_program_button,
          \<lparr>handler = process_question_about_program, validator = (\<lambda>_. True)\<rparr>),
         (get_recommendation_button,
          \<lparr>handler = process_get_recommendation, validator = (\<lambda>_. True)\<rparr>),
         (return_to_main_menu_button,
          \<lparr>handler = process_return_to_main_menu, validator = (\<lambda>_. True)\<rparr>)],
      state_routing =
        [(states_value QUESTIONS,
          \<lparr>handler = process_question, validator = (\<lambda>_. True)\<rparr>),
         (states_value RECOMMENDATION,
          \<lparr>handler = process_recommendation, validator = (\<lambda>_. True)\<rparr>)]\<rparr>"

definition determine_update_type :: "update \<Rightarrow> error + update_types" where
  "determine_update_type u =
     (case message u of
        None \<Rightarrow> Inl ValueError
      | Some m \<Rightarrow>
          (case message_text m of
             None \<Rightarrow> Inl ValueError
           | Some t \<Rightarrow> if t \<noteq> [] then Inr TEXT else Inl ValueError))"

text \<open>
  \<open>dict.get\<close> on the two tables. The key of the text table is \<open>update.message.text\<close>, which
  may be \<open>None\<close>; the key of the state table is \<open>state.state\<close>, a member of \<open>States\<close> or
  \<open>None\<close>, against keys that are the members' values.

  Modelled from the spec: \<open>BaseEnum\<close> of \<open>app.pkg.models.base\<close> is not among the sources;
  a member is taken to equal its value, so that the current state matches the entry of
  the state table registered under that value.
\<close>

definition text_routing_get :: "fsm_service \<Rightarrow> str option \<Rightarrow> fsm_router option" where
  "text_routing_get self key =
     (case key of None \<Rightarrow> None | Some t \<Rightarrow> map_of (text_routing self) t)"

definition state_routing_get :: "fsm_service \<Rightarrow> states option \<Rightarrow> fsm_router option" where
  "state_routing_get self key =
     (case key of None \<Rightarrow> None | Some s \<Rightarrow> map_of (state_routing self) (states_value s))"

definition process_message_update :: "fsm_service \<Rightarrow> update \<Rightarrow> update_handler io" where
  "process_message_update self u =
     bind_io (client_id_of u) (\<lambda>client_id.
     bind_io (get_client_state_information client_id) (\<lambda>state_info.
     bind_io (text_of u) (\<lambda>message_text.
     case text_routing_get self message_text of
       Some template_message_router \<Rightarrow>
         if validator template_message_router state_info
         then return_io (handler template_message_router)
         else return_io process_return_to_main_menu
     | None \<Rightarrow>
         (case state_info of
            None \<Rightarrow> raise_io AttributeError
          | Some si \<Rightarrow>
              (case state_routing_get self (state si) of
                 Some template_state_router \<Rightarrow>
                   if validator template_state_router state_info
                   then return_io (handler template_state_router)
                   else return_io process_return_to_main_menu
               | None \<Rightarrow> return_io process_return_to_main_menu)))))"

definition process_update_based_on_its_type ::
  "fsm_service \<Rightarrow> update \<Rightarrow> update_types \<Rightarrow> update_handler io" where
  "process_update_based_on_its_type self u update_type =
     (if update_type = TEXT then process_message_update self u else raise_io ValueError)"

subsection \<open>\<open>process_update\<close>\<close>

text \<open>The body of the outer \<open>try\<close>: classify, log, resolve the handler, run it.\<close>

definition attempt :: "fsm_service \<Rightarrow> update \<Rightarrow> send_message_response list io" where
  "attempt self u =
     bind_io (of_result (determine_update_type u)) (\<lambda>update_type.
     then_io (logger (Log_info ''Processing update: %s of type %s.''))
    (bind_io (process_update_based_on_its_type self u update_type) (\<lambda>function.
     function u)))"

text \<open>The \<open>except Exception\<close> clause with its own inner \<open>try\<close>.\<close>

definition recover :: "update \<Rightarrow> error \<Rightarrow> send_message_response list io" where
  "recover u ex =
     try_except
       (then_io (logger (Log_error ''Unexpected error when processing update: %s'' ex))
          (process_return_to_main_menu u))
       (\<lambda>_. True)
       (\<lambda>inner_ex.
          then_io
            (logger (Log_error ''While handling previous exception, another was raised: %s''
                       inner_ex))
            (return_io []))"

definition process_update :: "fsm_service \<Rightarrow> update \<Rightarrow> send_message_response list io" where
  "process_update self u =
     bind_io (try_except (attempt self u) (\<lambda>_. True) (recover u)) (\<lambda>result.
     then_io (logger (Log_info ''Processing result: %s.''))
       (return_io result))"

section \<open>Observing a run\<close>

text \<open>
  The messages sent among a list of calls, and the replies Telegram gives to them when
  the first of the calls has number \<open>n\<close>.
\<close>

fun sent_messages :: "call list \<Rightarrow> send_message_args list" where
  "sent_messages [] = []"
| "sent_messages (Telegram_send_message a # cs) = a # sent_messages cs"
| "sent_messages (_ # cs) = sent_messages cs"

fun replies :: "world \<Rightarrow> nat \<Rightarrow> call list \<Rightarrow> send_message_response list" where
  "replies w n [] = []"
| "replies w n (Telegram_send_message a # cs) = telegram w n a # replies w (Suc n) cs"
| "replies w n (_ # cs) = replies w (Suc n) cs"

text \<open>The questions put to the completion API, and the notes created, among a list of calls.\<close>

fun asked_questions :: "call list \<Rightarrow> (str list \<times> str option) list" where
  "asked_questions [] = []"
| "asked_questions (Openai_answer_question ws q # cs) = (ws, q) # asked_questions cs"
| "asked_questions (_ # cs) = asked_questions cs"

fun created_notes :: "call list \<Rightarrow> (int \<times> str) list" where
  "created_notes [] = []"
| "created_notes (Specifics_create i t # cs) = (i, t) # created_notes cs"
| "created_notes (_ # cs) = created_notes cs"

text \<open>The calls a run from \<open>w\<close> to \<open>w'\<close> has made.\<close>

definition new_calls :: "world \<Rightarrow> world \<Rightarrow> call list" where
  "new_calls w w' = drop (length (calls w)) (calls w')"

section \<open>Example inputs\<close>

text \<open>
  A world in which no call raises: an empty store, no notes, one program, fixed replies
  of the completion API, and a Telegram that answers every message with \<open>ok\<close>. The user
  of the examples has the identifier 7.
\<close>

definition example_world :: world where
  "example_world =
     \<lparr>redis = (\<lambda>_. []), user_specifics = [],
      supported_programms = [\<lparr>name = ascii ''AI'', website_url = ascii ''https://ai''\<rparr>],
      calls = [], log = [], raises = (\<lambda>_. None),
      answers = (\<lambda>_ _ _. ascii ''yes''),
      recommends = (\<lambda>_ _ _ _. (ascii ''study'', ascii ''AI'')),
      telegram = (\<lambda>_ a. \<lparr>ok = True,
                           result = Some \<lparr>from_id = None, chat_id = to_chat a,
                                          message_text = Some (body a)\<rparr>\<rparr>),
      listing_order = (\<lambda>xs. xs), extra_forbidden = False\<rparr>"

definition example_message :: "str option \<Rightarrow> message" where
  "example_message t = \<lparr>from_id = Some 7, chat_id = 7, message_text = t\<rparr>"

definition example_update :: "str option \<Rightarrow> update" where
  "example_update t = \<lparr>update_id = 1, message = Some (example_message t)\<rparr>"

text \<open>The example world with a given hash stored for the user, and with given faults.\<close>

definition stored :: "(bytes \<times> bytes) list \<Rightarrow> world \<Rightarrow> world" where
  "stored h w = w\<lparr>redis := (redis w)(7 := h)\<rparr>"

definition failing_from :: "nat \<Rightarrow> world \<Rightarrow> world" where
  "failing_from k w = w\<lparr>raises := (\<lambda>n. if k \<le> n then Some (Other 0) else None)\<rparr>"

definition failing_at :: "nat \<Rightarrow> world \<Rightarrow> world" where
  "failing_at k w = w\<lparr>raises := (\<lambda>n. if n = k then Some (Other 0) else None)\<rparr>"

section \<open>Properties of the state resolver\<close>

lemmas io_defs = return_io_def raise_io_def bind_io_def then_io_def try_except_def
  of_result_def logger_def call_io_def

lemma StateInformation_error:
  "StateInformation f d = Inl e \<Longrightarrow> e = ValidationError \<or> e = TypeError"
  by (auto simp: StateInformation_def split: if_splits option.splits)

lemma StateInformation_unknown:
  "\<not> list_ex (\<lambda>k. k = ascii ''__pydantic_self__'') (map fst d) \<Longrightarrow>
   map_of d (ascii ''state'') = Some v \<Longrightarrow> states_of_value v = None \<Longrightarrow>
   StateInformation f d = Inl ValidationError"
  by (simp add: StateInformation_def)

text \<open>
  What the resolver does achieve, given that the store answers the read: an empty record
  gives \<open>None\<close>; a record that decodes and that the validation of \<open>StateInformation\<close>
  rejects, as one whose \<open>state\<close> is no value of the enumeration, is logged and gives \<open>None\<close>;
  a record that decodes and has no field named \<open>__pydantic_self__\<close> never makes it raise.
\<close>

lemma resolver_on_decoded_records:
  assumes "raises w (length (calls w)) = None"
  shows "(redis w client_id = [] \<longrightarrow>
            get_client_state_information client_id w
              = (Inr None, w\<lparr>calls := calls w @ [Redis_hgetall client_id]\<rparr>))
       \<and> (\<forall>d. decode_items (redis w client_id) = Inr d
               \<and> StateInformation (extra_forbidden w) d = Inl ValidationError \<longrightarrow>
            get_client_state_information client_id w
              = (Inr None,
                 logged (Log_error ''Unexpected error when parsing redis hashmap: %s''
                           ValidationError)
                   (w\<lparr>calls := calls w @ [Redis_hgetall client_id]\<rparr>)))
       \<and> (\<forall>d. decode_items (redis w client_id) = Inr d
               \<and> \<not> list_ex (\<lambda>k. k = ascii ''__pydantic_self__'') (map fst d) \<longrightarrow>
            (\<exists>r w'. get_client_state_information client_id w = (Inr r, w')))"
proof (intro conjI allI impI)
  show "get_client_state_information client_id w
          = (Inr None, w\<lparr>calls := calls w @ [Redis_hgetall client_id]\<rparr>)"
    if "redis w client_id = []"
    using that assms by (simp add: get_client_state_information_def hgetall_def io_defs Let_def)
next
  fix d
  assume h: "decode_items (redis w client_id) = Inr d
               \<and> StateInformation (extra_forbidden w) d = Inl ValidationError"
  then have ne: "redis w client_id \<noteq> []"
    by (auto simp: StateInformation_def split: if_splits)
  show "get_client_state_information client_id w
          = (Inr None,
             logged (Log_error ''Unexpected error when parsing redis hashmap: %s''
                       ValidationError)
               (w\<lparr>calls := calls w @ [Redis_hgetall client_id]\<rparr>))"
    using h ne assms
    by (simp add: get_client_state_information_def hgetall_def io_defs Let_def)
next
  fix d
  assume h: "decode_items (redis w client_id) = Inr d
               \<and> \<not> list_ex (\<lambda>k. k = ascii ''__pydantic_self__'') (map fst d)"
  then have "\<And>e. StateInformation (extra_forbidden w) d = Inl e \<Longrightarrow> e = ValidationError"
    by (auto simp: StateInformation_def split: if_splits option.splits)
  with h assms show "\<exists>r w'. get_client_state_information client_id w = (Inr r, w')"
    by (cases "StateInformation (extra_forbidden w) d")
       (auto simp: get_client_state_information_def hgetall_def io_defs Let_def)
qed

text \<open>
  C10. The stored record \<open>{state: b'\xff'}\<close> is no state of the enumeration, and the store
  answers the read; the resolver neither logs nor returns \<open>None\<close>: the decoding, inside the
  \<open>try\<close>, raises \<open>UnicodeDecodeError\<close>, the \<open>except\<close> clause names
  \<open>pydantic.ValidationError\<close> alone, and the exception reaches the caller.
\<close>

theorem resolver_raises_on_undecodable:
  "get_client_state_information 7 (stored [(''state'', [CHR 0xFF])] example_world)
     = (Inl UnicodeDecodeError,
        stored [(''state'', [CHR 0xFF])] example_world\<lparr>calls := [Redis_hgetall 7]\<rparr>)"
  by (simp add: example_world_def stored_def get_client_state_information_def hgetall_def
        io_defs Let_def utf8_first_def)

text \<open>The same clause lets the \<open>TypeError\<close> of a field named \<open>__pydantic_self__\<close> through.\<close>

lemma resolver_raises_on_pydantic_self:
  "get_client_state_information 7
     (stored [(''__pydantic_self__'', ''main_menu'')] example_world)
     = (Inl TypeError,
        stored [(''__pydantic_self__'', ''main_menu'')] example_world
          \<lparr>calls := [Redis_hgetall 7]\<rparr>)"
  by (simp add: example_world_def stored_def get_client_state_information_def hgetall_def
        io_defs Let_def utf8_first_def StateInformation_def ascii_def)

section \<open>Properties of the dispatch\<close>

lemmas handler_defs = process_start_command_def process_return_to_main_menu_def
  process_question_about_program_def process_question_def process_get_recommendation_def
  process_recommendation_def

lemmas client_defs = hmset_def hgetall_def delete_def send_message_def get_programs_def
  create_user_specific_def get_user_specifics_def answer_question_def
  provide_recommendation_def

lemmas message_defs = main_menu_message_def greeting_message_def ask_question_message_def
  wait_answer_message_def markdown_message_def describe_yourself_message_def
  wait_recommendation_message_def

lemmas routing_defs = attempt_def process_update_based_on_its_type_def
  process_message_update_def determine_update_type_def client_id_of_def text_of_def
  text_routing_get_def state_routing_get_def

lemmas example_defs = example_world_def example_update_def example_message_def stored_def
  failing_at_def failing_from_def

text \<open>The state record as it goes to the store.\<close>

lemma encoded_state:
  "map (\<lambda>(f, v). (utf8_encode f, utf8_encode v)) (to_dict \<lparr>state = Some s\<rparr>)
     = [(''state'', case s of MAIN_MENU \<Rightarrow> ''main_menu'' | QUESTIONS \<Rightarrow> ''questions''
                      | RECOMMENDATION \<Rightarrow> ''recommendation'')]"
  by (cases s)
     (simp_all add: to_dict_def utf8_encode_def utf8_encode_cp_def ascii_def char_of_def
        bit_Suc_0_iff)

text \<open>What \<open>process_update\<close> makes of the outcome of its \<open>try\<close> body.\<close>

lemma process_update_unfold:
  "process_update self u w =
     (case attempt self u w of
        (Inr res, w1) \<Rightarrow> (Inr res, logged (Log_info ''Processing result: %s.'') w1)
      | (Inl ex, w1) \<Rightarrow>
          (case process_return_to_main_menu u
                  (logged (Log_error ''Unexpected error when processing update: %s'' ex) w1) of
             (Inr res, w2) \<Rightarrow> (Inr res, logged (Log_info ''Processing result: %s.'') w2)
           | (Inl inner_ex, w2) \<Rightarrow>
               (Inr [],
                logged (Log_info ''Processing result: %s.'')
                  (logged (Log_error
                       ''While handling previous exception, another was raised: %s'' inner_ex)
                     w2))))"
  by (simp add: process_update_def recover_def io_defs split: prod.splits sum.splits)

text \<open>
  C1. \<open>process_update\<close> always returns a list and never raises. The body of its \<open>try\<close> is
  the run of the selected handler; when that body raises, the default handler
  \<open>process_return_to_main_menu\<close> is run once more, after the error is logged, and its
  results are returned; when the default handler raises as well, the result is the empty
  list.
\<close>

theorem process_update_recovers:
  "(\<exists>res w'. process_update self u w = (Inr res, w'))
   \<and> (\<forall>t f w1. determine_update_type u = Inr t
         \<and> process_update_based_on_its_type self u t
              (logged (Log_info ''Processing update: %s of type %s.'') w) = (Inr f, w1)
        \<longrightarrow> attempt self u w = f u w1)
   \<and> (\<forall>ex w1 res w2. attempt self u w = (Inl ex, w1)
         \<and> process_return_to_main_menu u
              (logged (Log_error ''Unexpected error when processing update: %s'' ex) w1)
             = (Inr res, w2)
        \<longrightarrow> process_update self u w
              = (Inr res, logged (Log_info ''Processing result: %s.'') w2))
   \<and> (\<forall>ex w1 inner_ex w2. attempt self u w = (Inl ex, w1)
         \<and> process_return_to_main_menu u
              (logged (Log_error ''Unexpected error when processing update: %s'' ex) w1)
             = (Inl inner_ex, w2)
        \<longrightarrow> process_update self u w
              = (Inr [],
                 logged (Log_info ''Processing result: %s.'')
                   (logged (Log_error
                        ''While handling previous exception, another was raised: %s'' inner_ex)
                      w2)))"
proof (intro conjI allI impI)
  show "\<exists>res w'. process_update self u w = (Inr res, w')"
    by (simp add: process_update_unfold split: prod.splits sum.splits)
next
  fix t f w1
  assume "determine_update_type u = Inr t
         \<and> process_update_based_on_its_type self u t
              (logged (Log_info ''Processing update: %s of type %s.'') w) = (Inr f, w1)"
  then show "attempt self u w = f u w1"
    by (simp add: attempt_def io_defs)
next
  fix ex w1 res w2
  assume "attempt self u w = (Inl ex, w1)
         \<and> process_return_to_main_menu u
              (logged (Log_error ''Unexpected error when processing update: %s'' ex) w1)
             = (Inr res, w2)"
  then show "process_update self u w
              = (Inr res, logged (Log_info ''Processing result: %s.'') w2)"
    by (simp add: process_update_unfold)
next
  fix ex w1 inner_ex w2
  assume "attempt self u w = (Inl ex, w1)
         \<and> process_return_to_main_menu u
              (logged (Log_error ''Unexpected error when processing update: %s'' ex) w1)
             = (Inl inner_ex, w2)"
  then show "process_update self u w
              = (Inr [],
                 logged (Log_info ''Processing result: %s.'')
                   (logged (Log_error
                        ''While handling previous exception, another was raised: %s'' inner_ex)
                      w2))"
    by (simp add: process_update_unfold)
qed

theorem process_update_recovers_witness:
  "fst (process_update init (example_update (Some start_command)) (failing_at 4 example_world))
     = Inr [\<lparr>ok = True,
             result = Some \<lparr>from_id = None, chat_id = 7, message_text = Some main_menu_text\<rparr>\<rparr>]
   \<and> fst (process_update init (example_update (Some start_command))
            (failing_from 4 example_world)) = Inr []"
  using process_update_recovers [of init "example_update (Some start_command)" "failing_at 4 example_world"]
   process_update_recovers [of init "example_update (Some start_command)" "failing_from 4 example_world"]
  by (simp add: routing_defs handler_defs client_defs message_defs io_defs example_defs
        init_def get_client_state_information_def to_dict_def logged_def sender_def Let_def
        start_command_def ascii_def)




section \<open>The handlers when no call raises\<close>

text \<open>
  What each handler returns and leaves behind for an update with a message, in a world
  whose collaborators all answer. The call that follows \<open>k\<close> others of the run has the
  number \<open>length (calls w) + k\<close>.
\<close>

lemma return_to_main_menu_ok:
  assumes "message u = Some m" and "raises w = (\<lambda>_. None)"
  shows "process_return_to_main_menu u w =
    (Inr [telegram w (Suc (length (calls w))) (main_menu_message (sender m))],
     w\<lparr>redis := (redis w)(sender m :=
                  hset_fields [(''state'', ''main_menu'')] (redis w (sender m))),
       calls := calls w @ [Redis_hset (sender m) [(''state'', ''main_menu'')],
                           Telegram_send_message (main_menu_message (sender m))]\<rparr>)"
  using assms
  by (simp add: process_return_to_main_menu_def client_id_of_def hmset_def send_message_def
        io_defs encoded_state Let_def)

lemma question_about_program_ok:
  assumes "message u = Some m" and "raises w = (\<lambda>_. None)"
  shows "process_question_about_program u w =
    (Inr [telegram w (Suc (length (calls w))) (ask_question_message (sender m))],
     w\<lparr>redis := (redis w)(sender m :=
                  hset_fields [(''state'', ''questions'')] (redis w (sender m))),
       calls := calls w @ [Redis_hset (sender m) [(''state'', ''questions'')],
                           Telegram_send_message (ask_question_message (sender m))]\<rparr>)"
  using assms
  by (simp add: process_question_about_program_def client_id_of_def hmset_def send_message_def
        io_defs encoded_state Let_def)

lemma get_recommendation_ok:
  assumes "message u = Some m" and "raises w = (\<lambda>_. None)"
  shows "process_get_recommendation u w =
    (Inr [telegram w (Suc (length (calls w))) (describe_yourself_message (sender m))],
     w\<lparr>redis := (redis w)(sender m :=
                  hset_fields [(''state'', ''recommendation'')] (redis w (sender m))),
       calls := calls w @ [Redis_hset (sender m) [(''state'', ''recommendation'')],
                           Telegram_send_message (describe_yourself_message (sender m))]\<rparr>)"
  using assms
  by (simp add: process_get_recommendation_def client_id_of_def hmset_def send_message_def
        io_defs encoded_state Let_def)

lemma start_command_ok:
  assumes "message u = Some m" and "raises w = (\<lambda>_. None)"
  shows "process_start_command u w =
    (Inr [telegram w (length (calls w) + 3)
            (greeting_message (sender m) (supported_programms w)),
          telegram w (length (calls w) + 5) (main_menu_message (sender m))],
     w\<lparr>redis := (redis w)(sender m := [(''state'', ''main_menu'')]),
       calls := calls w @
         [Redis_delete (sender m),
          Redis_hset (sender m) [(''state'', ''main_menu'')],
          Programs_read_all,
          Telegram_send_message (greeting_message (sender m) (supported_programms w)),
          Redis_hset (sender m) [(''state'', ''main_menu'')],
          Telegram_send_message (main_menu_message (sender m))],
       log := log w @ [Log_info ''Fetching all supported programs.'']\<rparr>)"
  using assms
  by (simp add: process_start_command_def process_return_to_main_menu_def client_id_of_def
        hmset_def delete_def get_programs_def send_message_def io_defs encoded_state Let_def
        hset_fields_def logged_def eval_nat_numeral)

lemma question_ok:
  assumes "message u = Some m" and "raises w = (\<lambda>_. None)"
  shows "process_question u w =
    (Inr [telegram w (length (calls w) + 3)
            (markdown_message (sender m)
               (answers w (length (calls w) + 2) (map website_url (supported_programms w))
                  (message_text m)))],
     w\<lparr>calls := calls w @
         [Telegram_send_message (wait_answer_message (sender m)),
          Programs_read_all,
          Openai_answer_question (map website_url (supported_programms w)) (message_text m),
          Telegram_send_message
            (markdown_message (sender m)
               (answers w (length (calls w) + 2) (map website_url (supported_programms w))
                  (message_text m)))],
       log := log w @ [Log_info ''Received question: %s'',
                       Log_info ''Fetching all supported programs.'',
                       Log_info ''Answering question based on websites.'']\<rparr>)"
  using assms
  by (simp add: process_question_def client_id_of_def text_of_def
        get_programs_def answer_question_def send_message_def io_defs Let_def logged_def eval_nat_numeral)

lemma recommendation_ok:
  assumes "message u = Some m" and "message_text m = Some t" and "0 < sender m"
    and "raises w = (\<lambda>_. None)"
    and "specifics = listing_order w
           (map snd (filter (\<lambda>r. fst r = sender m) (user_specifics w @ [(sender m, t)])))"
    and "response = recommends w (length (calls w) + 3)
           (map website_url (supported_programms w)) specifics
           (map name (supported_programms w))"
  shows "process_recommendation u w =
    (Inr [telegram w (length (calls w) + 5) (markdown_message (sender m) (fst response)),
          telegram w (length (calls w) + 6)
            (markdown_message (sender m) (recommended_program_prefix @ snd response))],
     w\<lparr>user_specifics := user_specifics w @ [(sender m, t)],
       calls := calls w @
         [Specifics_create (sender m) t,
          Specifics_read_listed (sender m),
          Programs_read_all,
          Openai_provide_recommendation (map website_url (supported_programms w)) specifics
            (map name (supported_programms w)),
          Telegram_send_message (wait_recommendation_message (sender m)),
          Telegram_send_message (markdown_message (sender m) (fst response)),
          Telegram_send_message
            (markdown_message (sender m) (recommended_program_prefix @ snd response))],
       log := log w @ [Log_info ''Fetching user specifics for user ID: %s'',
                       Log_info ''Fetching all supported programs.'',
                       Log_info ''Providing recommendation based on websites and specifics.'']\<rparr>)"
  using assms
  by (simp add: process_recommendation_def client_id_of_def text_of_def
        create_user_specific_def get_user_specifics_def
        get_programs_def provide_recommendation_def send_message_def io_defs Let_def logged_def
        comp_def eval_nat_numeral)

section \<open>The state-triggered handlers under \<open>process_update\<close>\<close>

text \<open>
  The state the resolver reads depends on the stored record, on the base model and on
  whether the read raises, and on nothing else; a state it reads leaves the world as it
  was but for the recorded call.
\<close>

lemma resolver_fst_cong:
  assumes "redis w' c = redis w c" and "extra_forbidden w' = extra_forbidden w"
    and "raises w' (length (calls w')) = raises w (length (calls w))"
  shows "fst (get_client_state_information c w') = fst (get_client_state_information c w)"
  using assms
  by (auto simp: get_client_state_information_def hgetall_def io_defs Let_def logged_def
           split: option.splits sum.splits)

lemma resolver_some:
  assumes "raises w (length (calls w)) = None"
    and "fst (get_client_state_information c w) = Inr (Some si)"
  shows "get_client_state_information c w
           = (Inr (Some si), w\<lparr>calls := calls w @ [Redis_hgetall c]\<rparr>)"
  using assms
  by (auto simp: get_client_state_information_def hgetall_def io_defs Let_def logged_def
           split: option.splits sum.splits if_splits)

lemma text_routing_init:
  "map_of (text_routing init) t =
     (if t = start_command
      then Some \<lparr>handler = process_start_command, validator = (\<lambda>_. True)\<rparr>
      else if t = question_about_program_button
      then Some \<lparr>handler = process_question_about_program, validator = (\<lambda>_. True)\<rparr>
      else if t = get_recommendation_button
      then Some \<lparr>handler = process_get_recommendation, validator = (\<lambda>_. True)\<rparr>
      else if t = return_to_main_menu_button
      then Some \<lparr>handler = process_return_to_main_menu, validator = (\<lambda>_. True)\<rparr>
      else None)"
  by (simp add: init_def)

lemma state_routing_init:
  "state_routing_get init (Some s) =
     (case s of
        MAIN_MENU \<Rightarrow> None
      | QUESTIONS \<Rightarrow> Some \<lparr>handler = process_question, validator = (\<lambda>_. True)\<rparr>
      | RECOMMENDATION \<Rightarrow> Some \<lparr>handler = process_recommendation, validator = (\<lambda>_. True)\<rparr>)"
  by (cases s) (simp_all add: state_routing_get_def init_def ascii_def)

text \<open>The try body for a text that is no literal trigger, in a state read without a raise.\<close>

lemma attempt_by_state:
  assumes "message u = Some m" and "message_text m = Some t" and "t \<noteq> []"
    and "t \<notin> {start_command, question_about_program_button, get_recommendation_button,
               return_to_main_menu_button}"
    and "fst (get_client_state_information (sender m) w) = Inr (Some \<lparr>state = Some s\<rparr>)"
    and "raises w = (\<lambda>_. None)"
  shows "attempt init u w =
     (case s of MAIN_MENU \<Rightarrow> process_return_to_main_menu
              | QUESTIONS \<Rightarrow> process_question
              | RECOMMENDATION \<Rightarrow> process_recommendation) u
       (w\<lparr>log := log w @ [Log_info ''Processing update: %s of type %s.''],
          calls := calls w @ [Redis_hgetall (sender m)]\<rparr>)"
proof -
  let ?w = "logged (Log_info ''Processing update: %s of type %s.'') w"
  have "fst (get_client_state_information (sender m) ?w)
          = fst (get_client_state_information (sender m) w)"
    by (rule resolver_fst_cong) (simp_all add: logged_def)
  with assms(5) have "fst (get_client_state_information (sender m) ?w)
          = Inr (Some \<lparr>state = Some s\<rparr>)" by simp
  moreover have "raises ?w (length (calls ?w)) = None"
    using assms(6) by (simp add: logged_def)
  ultimately have r: "get_client_state_information (sender m) ?w
      = (Inr (Some \<lparr>state = Some s\<rparr>), ?w\<lparr>calls := calls ?w @ [Redis_hgetall (sender m)]\<rparr>)"
    by (rule resolver_some[rotated])
  show ?thesis
    using assms(1-4) r
    by (cases s)
       (simp_all add: attempt_def process_update_based_on_its_type_def
          process_message_update_def determine_update_type_def client_id_of_def text_of_def
          text_routing_get_def io_defs text_routing_init state_routing_init logged_def)
qed

text \<open>
  C4. A user whose stored state is \<open>QUESTIONS\<close> sends a text that is none of the four
  literal triggers, and no call raises: \<open>process_update\<close> asks the completion API exactly
  once, with the catalog's URLs and the user's text as it is, returns exactly one send
  result, the reply to the message that carries the answer, and leaves the store as it
  was, so that the state read afterwards is \<open>QUESTIONS\<close> still.
\<close>

theorem question_answered:
  assumes "message u = Some m" and "message_text m = Some t" and "t \<noteq> []"
    and "t \<notin> {start_command, question_about_program_button, get_recommendation_button,
               return_to_main_menu_button}"
    and "fst (get_client_state_information (sender m) w) = Inr (Some \<lparr>state = Some QUESTIONS\<rparr>)"
    and "raises w = (\<lambda>_. None)"
    and "urls = map website_url (supported_programms w)"
    and "answer = markdown_message (sender m) (answers w (length (calls w) + 3) urls (Some t))"
    and "out = process_update init u w"
  shows "fst out = Inr [telegram w (length (calls w) + 4) answer]
       \<and> new_calls w (snd out)
           = [Redis_hgetall (sender m),
              Telegram_send_message (wait_answer_message (sender m)),
              Programs_read_all,
              Openai_answer_question urls (Some t),
              Telegram_send_message answer]
       \<and> asked_questions (new_calls w (snd out)) = [(urls, Some t)]
       \<and> redis (snd out) = redis w
       \<and> fst (get_client_state_information (sender m) (snd out))
           = Inr (Some \<lparr>state = Some QUESTIONS\<rparr>)"
proof -
  let ?w1 = "w\<lparr>log := log w @ [Log_info ''Processing update: %s of type %s.''],
               calls := calls w @ [Redis_hgetall (sender m)]\<rparr>"
  have a: "attempt init u w = process_question u ?w1"
    using attempt_by_state [OF assms(1-6)] by simp
  have q: "raises ?w1 = (\<lambda>_. None)" using assms(6) by simp
  note h = question_ok [OF assms(1) q]
  have res: "fst out = Inr [telegram w (length (calls w) + 4) answer]"
    using assms(2,7-9) by (simp add: process_update_unfold a h eval_nat_numeral)
  have cs: "new_calls w (snd out)
           = [Redis_hgetall (sender m),
              Telegram_send_message (wait_answer_message (sender m)),
              Programs_read_all,
              Openai_answer_question urls (Some t),
              Telegram_send_message answer]"
    using assms(2,7-9)
    by (simp add: process_update_unfold a h new_calls_def logged_def eval_nat_numeral)
  have rd: "redis (snd out) = redis w"
    using assms(9) by (simp add: process_update_unfold a h logged_def)
  have "fst (get_client_state_information (sender m) (snd out))
          = fst (get_client_state_information (sender m) w)"
    using assms(6,9)
    by (intro resolver_fst_cong) (simp_all add: process_update_unfold a h logged_def)
  with assms(5) res cs rd show ?thesis by simp
qed

theorem question_answered_witness:
  "fst (process_update init (example_update (Some (ascii ''hi'')))
          (stored [(''state'', ''questions'')] example_world))
     = Inr [\<lparr>ok = True,
             result = Some \<lparr>from_id = None, chat_id = 7, message_text = Some (ascii ''yes'')\<rparr>\<rparr>]
   \<and> asked_questions (new_calls (stored [(''state'', ''questions'')] example_world)
        (snd (process_update init (example_update (Some (ascii ''hi'')))
                (stored [(''state'', ''questions'')] example_world))))
     = [([ascii ''https://ai''], Some (ascii ''hi''))]
   \<and> redis (snd (process_update init (example_update (Some (ascii ''hi'')))
                (stored [(''state'', ''questions'')] example_world))) 7
     = [(''state'', ''questions'')]"
  using question_answered [of "example_update (Some (ascii ''hi''))"
      "example_message (Some (ascii ''hi''))" "ascii ''hi''"
      "stored [(''state'', ''questions'')] example_world"
      "[ascii ''https://ai'']" "markdown_message 7 (ascii ''yes'')"
      "process_update init (example_update (Some (ascii ''hi'')))
          (stored [(''state'', ''questions'')] example_world)"]
  by (simp add: example_defs get_client_state_information_def hgetall_def io_defs
        logged_def sender_def Let_def utf8_first_def StateInformation_def states_of_value_def
        start_command_def question_about_program_button_def
        get_recommendation_button_def return_to_main_menu_button_def ascii_def
        markdown_message_def)

text \<open>
  C5, as stated, fails for a text that is a literal trigger: in state \<open>RECOMMENDATION\<close> the
  text \<open>/start\<close> goes to the start handler; no note is created and the stored state
  becomes \<open>MAIN_MENU\<close>.
\<close>

theorem recommendation_given_counterexample:
  "created_notes (calls (snd (process_update init (example_update (Some start_command))
                    (stored [(''state'', ''recommendation'')] example_world)))) = []
   \<and> user_specifics (snd (process_update init (example_update (Some start_command))
                    (stored [(''state'', ''recommendation'')] example_world))) = []
   \<and> redis (snd (process_update init (example_update (Some start_command))
                    (stored [(''state'', ''recommendation'')] example_world))) 7
       = [(''state'', ''main_menu'')]"
  by (simp add: process_update_unfold routing_defs handler_defs client_defs message_defs
        io_defs example_defs init_def get_client_state_information_def encoded_state
        logged_def sender_def Let_def utf8_first_def StateInformation_def states_of_value_def
        hset_fields_def start_command_def ascii_def)

text \<open>
  C5, amended. A user with a positive identifier whose stored state is \<open>RECOMMENDATION\<close>
  sends a text that is none of the four literal triggers, and no call raises:
  \<open>process_update\<close> creates exactly one note, with that text, and returns exactly two send
  results, the reply to the message with the recommendation text and then the reply to
  the message that names the recommended program; the store is left as it was, so that
  the state read afterwards is \<open>RECOMMENDATION\<close> still.
\<close>

theorem recommendation_given:
  assumes "message u = Some m" and "message_text m = Some t" and "t \<noteq> []"
    and "t \<notin> {start_command, question_about_program_button, get_recommendation_button,
               return_to_main_menu_button}"
    and "fst (get_client_state_information (sender m) w)
           = Inr (Some \<lparr>state = Some RECOMMENDATION\<rparr>)"
    and "raises w = (\<lambda>_. None)"
    and "0 < sender m"
    and "notes = listing_order w
           (map snd (filter (\<lambda>r. fst r = sender m) (user_specifics w @ [(sender m, t)])))"
    and "response = recommends w (length (calls w) + 4)
           (map website_url (supported_programms w)) notes (map name (supported_programms w))"
    and "out = process_update init u w"
  shows "fst out
           = Inr [telegram w (length (calls w) + 6)
                    (markdown_message (sender m) (fst response)),
                  telegram w (length (calls w) + 7)
                    (markdown_message (sender m) (recommended_program_prefix @ snd response))]
       \<and> created_notes (new_calls w (snd out)) = [(sender m, t)]
       \<and> user_specifics (snd out) = user_specifics w @ [(sender m, t)]
       \<and> redis (snd out) = redis w
       \<and> fst (get_client_state_information (sender m) (snd out))
           = Inr (Some \<lparr>state = Some RECOMMENDATION\<rparr>)"
proof -
  let ?w1 = "w\<lparr>log := log w @ [Log_info ''Processing update: %s of type %s.''],
               calls := calls w @ [Redis_hgetall (sender m)]\<rparr>"
  have a: "attempt init u w = process_recommendation u ?w1"
    using attempt_by_state [OF assms(1-6)] by simp
  have q: "raises ?w1 = (\<lambda>_. None)" using assms(6) by simp
  have n: "notes = listing_order ?w1
           (map snd (filter (\<lambda>r. fst r = sender m) (user_specifics ?w1 @ [(sender m, t)])))"
    using assms(8) by simp
  have r: "response = recommends ?w1 (length (calls ?w1) + 3)
           (map website_url (supported_programms ?w1)) notes
           (map name (supported_programms ?w1))"
    using assms(9) by (simp add: eval_nat_numeral)
  note h = recommendation_ok [OF assms(1,2,7) q n r]
  have res: "fst out
           = Inr [telegram w (length (calls w) + 6)
                    (markdown_message (sender m) (fst response)),
                  telegram w (length (calls w) + 7)
                    (markdown_message (sender m) (recommended_program_prefix @ snd response))]"
    using assms(10) by (simp add: process_update_unfold a h eval_nat_numeral)
  have cs: "created_notes (new_calls w (snd out)) = [(sender m, t)]"
    using assms(10)
    by (simp add: process_update_unfold a h new_calls_def logged_def)
  have us: "user_specifics (snd out) = user_specifics w @ [(sender m, t)]"
    using assms(10) by (simp add: process_update_unfold a h logged_def)
  have rd: "redis (snd out) = redis w"
    using assms(10) by (simp add: process_update_unfold a h logged_def)
  have "fst (get_client_state_information (sender m) (snd out))
          = fst (get_client_state_information (sender m) w)"
    using assms(6,10)
    by (intro resolver_fst_cong) (simp_all add: process_update_unfold a h logged_def)
  with assms(5) res cs us rd show ?thesis by simp
qed

theorem recommendation_given_witness:
  "fst (process_update init (example_update (Some (ascii ''hi'')))
          (stored [(''state'', ''recommendation'')] example_world))
     = Inr [\<lparr>ok = True,
             result = Some \<lparr>from_id = None, chat_id = 7,
                            message_text = Some (ascii ''study'')\<rparr>\<rparr>,
            \<lparr>ok = True,
             result = Some \<lparr>from_id = None, chat_id = 7,
                            message_text = Some (recommended_program_prefix @ ascii ''AI'')\<rparr>\<rparr>]
   \<and> user_specifics (snd (process_update init (example_update (Some (ascii ''hi'')))
          (stored [(''state'', ''recommendation'')] example_world)))
     = [(7, ascii ''hi'')]
   \<and> redis (snd (process_update init (example_update (Some (ascii ''hi'')))
                (stored [(''state'', ''recommendation'')] example_world))) 7
     = [(''state'', ''recommendation'')]"
  using recommendation_given [of "example_update (Some (ascii ''hi''))"
      "example_message (Some (ascii ''hi''))" "ascii ''hi''"
      "stored [(''state'', ''recommendation'')] example_world"
      "[ascii ''hi'']" "(ascii ''study'', ascii ''AI'')"
      "process_update init (example_update (Some (ascii ''hi'')))
          (stored [(''state'', ''recommendation'')] example_world)"]
  by (simp add: example_defs get_client_state_information_def hgetall_def io_defs
        logged_def sender_def Let_def utf8_first_def StateInformation_def states_of_value_def
        start_command_def question_about_program_button_def
        get_recommendation_button_def return_to_main_menu_button_def ascii_def
        markdown_message_def)

section \<open>Updates without a text\<close>

text \<open>
  C3, as stated, fails for an update with no message: the default handler reads
  \<open>update.message.from_\<close> itself and raises \<open>AttributeError\<close>, so \<open>process_update\<close> returns the
  empty list; nothing is sent and nothing is written.
\<close>

theorem unsupported_update_counterexample:
  "process_update init \<lparr>update_id = 1, message = None\<rparr> example_world
     = (Inr [],
        example_world
          \<lparr>log := [Log_error ''Unexpected error when processing update: %s'' ValueError,
                   Log_error ''While handling previous exception, another was raised: %s''
                     AttributeError,
                   Log_info ''Processing result: %s.'']\<rparr>)
   \<and> calls (snd (process_update init \<lparr>update_id = 1, message = None\<rparr> example_world)) = []"
  by (simp add: process_update_unfold attempt_def determine_update_type_def
        process_return_to_main_menu_def client_id_of_def io_defs logged_def example_world_def)

text \<open>
  C3, amended. \<open>process_update\<close> never raises. For an update with no message the default
  handler raises in its turn and the result is the empty list. For an update whose
  message has no text, or an empty one, the classification raises \<open>ValueError\<close> and the
  result is what the default handler returns, or the empty list when it raises; when no
  call raises, that is the reply to the main-menu message.
\<close>

theorem unsupported_update:
  "(\<exists>res w'. process_update self u w = (Inr res, w'))
   \<and> (message u = None \<longrightarrow>
        process_update self u w
          = (Inr [],
             logged (Log_info ''Processing result: %s.'')
               (logged (Log_error ''While handling previous exception, another was raised: %s''
                          AttributeError)
                  (logged (Log_error ''Unexpected error when processing update: %s'' ValueError)
                     w))))
   \<and> (\<forall>m. message u = Some m \<and> (message_text m = None \<or> message_text m = Some []) \<longrightarrow>
        process_update self u w
          = (case process_return_to_main_menu u
                    (logged (Log_error ''Unexpected error when processing update: %s''
                               ValueError) w) of
               (Inr res, w2) \<Rightarrow> (Inr res, logged (Log_info ''Processing result: %s.'') w2)
             | (Inl inner_ex, w2) \<Rightarrow>
                 (Inr [],
                  logged (Log_info ''Processing result: %s.'')
                    (logged (Log_error
                         ''While handling previous exception, another was raised: %s''
                         inner_ex) w2))))
   \<and> (\<forall>m. message u = Some m \<and> (message_text m = None \<or> message_text m = Some [])
          \<and> raises w = (\<lambda>_. None) \<longrightarrow>
        fst (process_update self u w)
          = Inr [telegram w (Suc (length (calls w))) (main_menu_message (sender m))])"
proof (intro conjI allI impI)
  show "\<exists>res w'. process_update self u w = (Inr res, w')"
    by (simp add: process_update_unfold split: prod.splits sum.splits)
next
  assume "message u = None"
  then show "process_update self u w
          = (Inr [],
             logged (Log_info ''Processing result: %s.'')
               (logged (Log_error ''While handling previous exception, another was raised: %s''
                          AttributeError)
                  (logged (Log_error ''Unexpected error when processing update: %s'' ValueError)
                     w)))"
    by (simp add: process_update_unfold attempt_def determine_update_type_def
          process_return_to_main_menu_def client_id_of_def io_defs)
next
  fix m
  assume "message u = Some m \<and> (message_text m = None \<or> message_text m = Some [])"
  then have "attempt self u w = (Inl ValueError, w)"
    by (auto simp: attempt_def determine_update_type_def io_defs)
  then show "process_update self u w
          = (case process_return_to_main_menu u
                    (logged (Log_error ''Unexpected error when processing update: %s''
                               ValueError) w) of
               (Inr res, w2) \<Rightarrow> (Inr res, logged (Log_info ''Processing result: %s.'') w2)
             | (Inl inner_ex, w2) \<Rightarrow>
                 (Inr [],
                  logged (Log_info ''Processing result: %s.'')
                    (logged (Log_error
                         ''While handling previous exception, another was raised: %s''
                         inner_ex) w2)))"
    by (simp add: process_update_unfold)
next
  fix m
  assume h: "message u = Some m \<and> (message_text m = None \<or> message_text m = Some [])
          \<and> raises w = (\<lambda>_. None)"
  then have a: "attempt self u w = (Inl ValueError, w)"
    by (auto simp: attempt_def determine_update_type_def io_defs)
  let ?w = "logged (Log_error ''Unexpected error when processing update: %s'' ValueError) w"
  from h have "raises ?w = (\<lambda>_. None)" and "message u = Some m"
    by (simp_all add: logged_def)
  from return_to_main_menu_ok [OF this(2,1)]
  show "fst (process_update self u w)
          = Inr [telegram w (Suc (length (calls w))) (main_menu_message (sender m))]"
    by (simp add: process_update_unfold a logged_def)
qed

theorem unsupported_update_witness:
  "fst (process_update init (example_update None) example_world)
     = Inr [\<lparr>ok = True,
             result = Some \<lparr>from_id = None, chat_id = 7, message_text = Some main_menu_text\<rparr>\<rparr>]
   \<and> fst (process_update init \<lparr>update_id = 1, message = None\<rparr> example_world) = Inr []"
proof -
  note a = unsupported_update [of init "example_update None" example_world,
      THEN conjunct2, THEN conjunct2, THEN conjunct2, rule_format, of "example_message None"]
  note b = unsupported_update [of init "\<lparr>update_id = 1, message = None\<rparr>" example_world,
      THEN conjunct2, THEN conjunct1, rule_format]
  have "fst (process_update init (example_update None) example_world)
          = Inr [telegram example_world (Suc (length (calls example_world)))
                   (main_menu_message (sender (example_message None)))]"
    by (rule a) (simp add: example_update_def example_message_def example_world_def)
  moreover have "fst (process_update init \<lparr>update_id = 1, message = None\<rparr> example_world) = Inr []"
    by (simp add: b)
  ultimately show ?thesis
    by (simp add: example_world_def example_message_def sender_def main_menu_message_def)
qed

section \<open>The order of calls in the recommendation handler\<close>

text \<open>
  C6. For the user's text \<open>hi\<close> in the example world, the recommendation handler makes its
  calls in this order: the note is created, the notes are listed, the catalog is read,
  the completion API is asked for the recommendation, and only then the interim message
  is sent, followed by the two replies. The claim puts the interim message before the
  call to the completion API.
\<close>

theorem recommendation_order_at_input:
  "calls (snd (process_recommendation (example_update (Some (ascii ''hi''))) example_world))
     = [Specifics_create 7 (ascii ''hi''),
        Specifics_read_listed 7,
        Programs_read_all,
        Openai_provide_recommendation [ascii ''https://ai''] [ascii ''hi''] [ascii ''AI''],
        Telegram_send_message (wait_recommendation_message 7),
        Telegram_send_message (markdown_message 7 (ascii ''study'')),
        Telegram_send_message
          (markdown_message 7 (recommended_program_prefix @ ascii ''AI''))]"
proof -
  have m: "message (example_update (Some (ascii ''hi'')))
             = Some (example_message (Some (ascii ''hi'')))"
    by (simp add: example_update_def)
  have t: "message_text (example_message (Some (ascii ''hi''))) = Some (ascii ''hi'')"
    by (simp add: example_message_def)
  have s: "sender (example_message (Some (ascii ''hi''))) = 7"
    by (simp add: example_message_def sender_def)
  have q: "raises example_world = (\<lambda>_. None)"
    by (simp add: example_world_def)
  have p: "0 < (7::int)" by simp
  note h = recommendation_ok [OF m t _ q refl refl, unfolded s, OF p]
  show ?thesis
    unfolding h by (simp add: example_world_def)
qed

section \<open>The start command and the store\<close>

text \<open>
  C7, as stated, fails: the first call of the start handler is the deletion of the user's
  record, before the new state is written; a field \<open>foo\<close> of the old record is gone
  afterwards.
\<close>

theorem start_command_counterexample:
  "take 2 (calls (snd (process_start_command (example_update (Some start_command))
             (stored [(''state'', ''questions''), (''foo'', ''bar'')] example_world))))
     = [Redis_delete 7, Redis_hset 7 [(''state'', ''main_menu'')]]
   \<and> redis (snd (process_start_command (example_update (Some start_command))
             (stored [(''state'', ''questions''), (''foo'', ''bar'')] example_world))) 7
     = [(''state'', ''main_menu'')]"
  using start_command_ok [of "example_update (Some start_command)"
      "example_message (Some start_command)"
      "stored [(''state'', ''questions''), (''foo'', ''bar'')] example_world"]
  by (simp add: example_defs sender_def)

text \<open>
  C7, amended. When no call raises, the start handler first deletes the user's record and
  then writes the state \<open>MAIN_MENU\<close>; these are its only calls to the store before the
  greeting is sent, and the one that follows the greeting writes \<open>MAIN_MENU\<close> again. The
  user's record afterwards is the state field alone.
\<close>

theorem start_command_deletes_first:
  assumes "message u = Some m" and "raises w = (\<lambda>_. None)"
    and "out = process_start_command u w"
  shows "new_calls w (snd out)
           = [Redis_delete (sender m),
              Redis_hset (sender m) [(''state'', ''main_menu'')],
              Programs_read_all,
              Telegram_send_message (greeting_message (sender m) (supported_programms w)),
              Redis_hset (sender m) [(''state'', ''main_menu'')],
              Telegram_send_message (main_menu_message (sender m))]
       \<and> redis (snd out) = (redis w)(sender m := [(''state'', ''main_menu'')])"
  using assms(3) by (simp add: start_command_ok [OF assms(1,2)] new_calls_def)

theorem start_command_deletes_first_witness:
  "new_calls (stored [(''state'', ''questions''), (''foo'', ''bar'')] example_world)
     (snd (process_start_command (example_update (Some start_command))
             (stored [(''state'', ''questions''), (''foo'', ''bar'')] example_world)))
     = [Redis_delete 7,
        Redis_hset 7 [(''state'', ''main_menu'')],
        Programs_read_all,
        Telegram_send_message
          (greeting_message 7 [\<lparr>name = ascii ''AI'', website_url = ascii ''https://ai''\<rparr>]),
        Redis_hset 7 [(''state'', ''main_menu'')],
        Telegram_send_message (main_menu_message 7)]
   \<and> redis (snd (process_start_command (example_update (Some start_command))
             (stored [(''state'', ''questions''), (''foo'', ''bar'')] example_world))) 7
       = [(''state'', ''main_menu'')]"
proof -
  have m: "message (example_update (Some start_command))
             = Some (example_message (Some start_command))"
    by (simp add: example_update_def)
  have s: "sender (example_message (Some start_command)) = 7"
    by (simp add: example_message_def sender_def)
  have q: "raises (stored [(''state'', ''questions''), (''foo'', ''bar'')] example_world)
             = (\<lambda>_. None)"
    by (simp add: example_world_def stored_def)
  note h = start_command_deletes_first [OF m q refl, unfolded s]
  show ?thesis
    using h by (simp add: example_world_def stored_def)
qed

section \<open>State writes\<close>

text \<open>
  C8, as stated, fails: the state write of the default handler goes through \<open>HSET\<close>, which
  sets the field \<open>state\<close> and keeps the others; a field \<open>foo\<close> of the stored record survives
  it.
\<close>

theorem state_write_counterexample:
  "redis (snd (process_return_to_main_menu (example_update (Some return_to_main_menu_button))
                 (stored [(''state'', ''questions''), (''foo'', ''bar'')] example_world))) 7
     = [(''state'', ''main_menu''), (''foo'', ''bar'')]"
proof -
  have m: "message (example_update (Some return_to_main_menu_button))
             = Some (example_message (Some return_to_main_menu_button))"
    by (simp add: example_update_def)
  have s: "sender (example_message (Some return_to_main_menu_button)) = 7"
    by (simp add: example_message_def sender_def)
  have q: "raises (stored [(''state'', ''questions''), (''foo'', ''bar'')] example_world)
             = (\<lambda>_. None)"
    by (simp add: example_world_def stored_def)
  note h = return_to_main_menu_ok [OF m q, unfolded s]
  show ?thesis
    unfolding h by (simp add: example_world_def stored_def hset_fields_def)
qed

text \<open>
  C8, amended. The store holds one record per user, under the user's key. When no call
  raises, the state write of \<open>process_return_to_main_menu\<close>,
  \<open>process_question_about_program\<close> and \<open>process_get_recommendation\<close> sets the field \<open>state\<close>
  of the user's record to the new state and leaves every other field, and every other
  user's record, as it was; a record with distinct fields keeps distinct fields, so it has
  the one state; a record that is empty or holds the state alone is replaced entirely.
  Only the start handler leaves nothing of the old record.
\<close>

theorem state_write_sets_state_field:
  assumes "message u = Some m" and "raises w = (\<lambda>_. None)"
    and "(h, v) \<in> {(process_return_to_main_menu, ''main_menu''),
                    (process_question_about_program, ''questions''),
                    (process_get_recommendation, ''recommendation'')}"
    and "w' = snd (h u w)"
  shows "redis w' = (redis w)(sender m := AList.update ''state'' v (redis w (sender m)))
       \<and> map_of (redis w' (sender m)) = (map_of (redis w (sender m)))(''state'' \<mapsto> v)
       \<and> (distinct (map fst (redis w (sender m))) \<longrightarrow>
            distinct (map fst (redis w' (sender m))))
       \<and> (redis w (sender m) = [] \<or> (\<exists>old. redis w (sender m) = [(''state'', old)]) \<longrightarrow>
            redis w' (sender m) = [(''state'', v)])
       \<and> redis (snd (process_start_command u w))
           = (redis w)(sender m := [(''state'', ''main_menu'')])"
proof -
  have r: "redis w' = (redis w)(sender m := AList.update ''state'' v (redis w (sender m)))"
    using assms(3,4)
    by (auto simp: return_to_main_menu_ok [OF assms(1,2)]
          question_about_program_ok [OF assms(1,2)] get_recommendation_ok [OF assms(1,2)]
          hset_fields_def)
  have s: "redis (snd (process_start_command u w))
           = (redis w)(sender m := [(''state'', ''main_menu'')])"
    by (simp add: start_command_ok [OF assms(1,2)])
  show ?thesis
    unfolding r using s
    by (auto simp: update_conv' distinct_update)
qed

theorem state_write_sets_state_field_witness:
  "redis (snd (process_get_recommendation (example_update (Some get_recommendation_button))
                 (stored [(''state'', ''questions'')] example_world))) 7
     = [(''state'', ''recommendation'')]"
proof -
  have m: "message (example_update (Some get_recommendation_button))
             = Some (example_message (Some get_recommendation_button))"
    by (simp add: example_update_def)
  have s: "sender (example_message (Some get_recommendation_button)) = 7"
    by (simp add: example_message_def sender_def)
  have q: "raises (stored [(''state'', ''questions'')] example_world) = (\<lambda>_. None)"
    by (simp add: example_world_def stored_def)
  note t = state_write_sets_state_field [OF m q _ refl,
      of process_get_recommendation "''recommendation''", unfolded s,
      THEN conjunct2, THEN conjunct2, THEN conjunct2, THEN conjunct1, rule_format]
  show ?thesis
    by (rule t) (simp_all add: example_world_def stored_def)
qed

section \<open>The results a handler returns\<close>

text \<open>
  Whatever the collaborators do: a handler that returns has sent every message it tried
  to send, and what it returns are the replies to them, in order, except that the question
  and the recommendation handler drop the reply to their first, interim message.
\<close>

lemma return_to_main_menu_replies:
  assumes "process_return_to_main_menu u w = (Inr res, w')"
  shows "replies w (length (calls w)) (new_calls w w') = res \<and> length res = 1"
  using assms
  by (auto simp: process_return_to_main_menu_def client_id_of_def hmset_def send_message_def
        io_defs Let_def new_calls_def encoded_state
        split: option.splits sum.splits prod.splits if_splits)

lemma question_about_program_replies:
  assumes "process_question_about_program u w = (Inr res, w')"
  shows "replies w (length (calls w)) (new_calls w w') = res \<and> length res = 1"
  using assms
  by (auto simp: process_question_about_program_def client_id_of_def hmset_def
        send_message_def io_defs Let_def new_calls_def encoded_state
        split: option.splits sum.splits prod.splits if_splits)

lemma get_recommendation_replies:
  assumes "process_get_recommendation u w = (Inr res, w')"
  shows "replies w (length (calls w)) (new_calls w w') = res \<and> length res = 1"
  using assms
  by (auto simp: process_get_recommendation_def client_id_of_def hmset_def
        send_message_def io_defs Let_def new_calls_def encoded_state
        split: option.splits sum.splits prod.splits if_splits)

lemma start_command_replies:
  assumes "process_start_command u w = (Inr res, w')"
  shows "replies w (length (calls w)) (new_calls w w') = res \<and> length res = 2"
  using assms
  by (auto simp: process_start_command_def process_return_to_main_menu_def client_id_of_def
        hmset_def delete_def get_programs_def send_message_def
        io_defs Let_def new_calls_def encoded_state logged_def
        split: option.splits sum.splits prod.splits if_splits)

lemma question_replies:
  assumes "process_question u w = (Inr res, w')"
  shows "(\<exists>interim. replies w (length (calls w)) (new_calls w w') = interim # res)
       \<and> length res = 1"
  using assms
  by (auto simp: process_question_def client_id_of_def text_of_def
        get_programs_def answer_question_def send_message_def
        io_defs Let_def new_calls_def logged_def
        split: option.splits sum.splits prod.splits if_splits)

lemma recommendation_replies:
  assumes "process_recommendation u w = (Inr res, w')"
  shows "(\<exists>interim. replies w (length (calls w)) (new_calls w w') = interim # res)
       \<and> length res = 2"
  using assms
  by (auto simp: process_recommendation_def client_id_of_def text_of_def
        create_user_specific_def get_user_specifics_def
        get_programs_def provide_recommendation_def send_message_def
        io_defs Let_def new_calls_def logged_def
        split: option.splits sum.splits prod.splits if_splits)

text \<open>
  C9, as stated, fails: the question handler sends two messages, the interim one and the
  answer, and returns one result.
\<close>

theorem handler_results_counterexample:
  "sent_messages (calls (snd (process_question (example_update (Some (ascii ''hi'')))
                                 example_world)))
     = [wait_answer_message 7, markdown_message 7 (ascii ''yes'')]
   \<and> fst (process_question (example_update (Some (ascii ''hi''))) example_world)
     = Inr [\<lparr>ok = True,
             result = Some \<lparr>from_id = None, chat_id = 7, message_text = Some (ascii ''yes'')\<rparr>\<rparr>]"
proof -
  have m: "message (example_update (Some (ascii ''hi'')))
             = Some (example_message (Some (ascii ''hi'')))"
    by (simp add: example_update_def)
  have s: "sender (example_message (Some (ascii ''hi''))) = 7"
    by (simp add: example_message_def sender_def)
  have q: "raises example_world = (\<lambda>_. None)"
    by (simp add: example_world_def)
  note h = question_ok [OF m q, unfolded s]
  show ?thesis
    unfolding h by (simp add: example_world_def markdown_message_def)
qed

text \<open>
  C9, amended. For every invocation of one of the six handlers that returns: the results
  are the replies to the messages sent during the invocation, one per message and in the
  order of sending, for the start, main-menu, question-about-program and
  get-recommendation handlers; for the question and the recommendation handler they are
  the replies to the messages sent after the first, interim message, whose reply is
  dropped; and there are at most two results.
\<close>

theorem handler_results:
  assumes "h u w = (Inr res, w')"
  shows "(h \<in> {process_start_command, process_return_to_main_menu,
              process_question_about_program, process_get_recommendation} \<longrightarrow>
            replies w (length (calls w)) (new_calls w w') = res)
       \<and> (h \<in> {process_question, process_recommendation} \<longrightarrow>
            (\<exists>interim. replies w (length (calls w)) (new_calls w w') = interim # res))
       \<and> (h \<in> {process_start_command, process_return_to_main_menu,
                process_question_about_program, process_get_recommendation,
                process_question, process_recommendation} \<longrightarrow>
            length res \<le> 2)"
  using assms start_command_replies [of u w res w'] return_to_main_menu_replies [of u w res w']
    question_about_program_replies [of u w res w'] get_recommendation_replies [of u w res w']
    question_replies [of u w res w'] recommendation_replies [of u w res w']
  by auto

theorem handler_results_witness:
  "replies example_world 0
     (new_calls example_world
        (snd (process_start_command (example_update (Some start_command)) example_world)))
     = [\<lparr>ok = True,
         result = Some \<lparr>from_id = None, chat_id = 7, message_text = Some greeting_text\<rparr>\<rparr>,
        \<lparr>ok = True,
         result = Some \<lparr>from_id = None, chat_id = 7, message_text = Some main_menu_text\<rparr>\<rparr>]"
proof -
  have m: "message (example_update (Some start_command))
             = Some (example_message (Some start_command))"
    by (simp add: example_update_def)
  have s: "sender (example_message (Some start_command)) = 7"
    by (simp add: example_message_def sender_def)
  have q: "raises example_world = (\<lambda>_. None)"
    by (simp add: example_world_def)
  note e = start_command_ok [OF m q, unfolded s]
  note t = handler_results [of process_start_command
      "example_update (Some start_command)" example_world, OF e, THEN conjunct1, rule_format]
  have "replies example_world (length (calls example_world))
     (new_calls example_world
        (snd (process_start_command (example_update (Some start_command)) example_world)))
     = [telegram example_world (length (calls example_world) + 3)
            (greeting_message 7 (supported_programms example_world)),
          telegram example_world (length (calls example_world) + 5) (main_menu_message 7)]"
    unfolding e snd_conv by (rule t) simp
  then show ?thesis
    by (simp add: example_world_def greeting_message_def main_menu_message_def)
qed

end
